theory Spec2Isabelle
  imports Complex_Main "HOL-Library.Word"
begin

section \<open>The program state of batsignal.c\<close>

text \<open>
  The battery states of the source (\<^verbatim>\<open>#define STATE_AC 0\<close> to \<^verbatim>\<open>STATE_FULL 5\<close>),
  kept in the global \<^verbatim>\<open>battery_state\<close>.
\<close>

datatype state =
  STATE_AC | STATE_DISCHARGING | STATE_WARNING | STATE_CRITICAL | STATE_DANGER | STATE_FULL

text \<open>
  The option globals of the source. A C \<^verbatim>\<open>int\<close> is an \<^typ>\<open>int\<close> here; where the
  source converts or can overflow, the conversion is written out (\<open>to_int\<close>,
  \<open>to_unsigned\<close> below). \<^verbatim>\<open>icon\<close> is a pointer that may be \<^verbatim>\<open>NULL\<close>.
  The list of battery names (\<^verbatim>\<open>battery_names\<close>, \<^verbatim>\<open>amount_batteries\<close>) belongs to
  device discovery and is not part of this record: the aggregation below receives one
  reading per battery of that list.
\<close>

record options =
  daemonize :: bool
  run_once :: bool
  battery_required :: bool
  show_notifications :: bool
  show_charging_msg :: bool
  battery_name_specified :: bool
  multiplier :: int
  fixed :: bool
  warning :: int
  critical :: int
  danger :: int
  full :: int
  warningmsg :: string
  criticalmsg :: string
  fullmsg :: string
  chargingmsg :: string
  dischargingmsg :: string
  dangercmd :: string
  msgcmd :: string
  appname :: string
  icon :: "string option"
  notification_expires :: int

text \<open>
  The initialisers of those globals. \<^verbatim>\<open>PROGNAME\<close> comes from \<^verbatim>\<open>defs.h\<close>, which is
  not among the sources, so it is a parameter; \<^verbatim>\<open>NOTIFY_EXPIRES_NEVER\<close> is 0 and
  \<^verbatim>\<open>NOTIFY_EXPIRES_DEFAULT\<close> is -1 in libnotify.
\<close>

definition initial_options :: "string \<Rightarrow> options" where
  "initial_options progname =
     \<lparr> daemonize = False, run_once = False, battery_required = True,
       show_notifications = True, show_charging_msg = False,
       battery_name_specified = False,
       multiplier = 60, fixed = False,
       warning = 15, critical = 5, danger = 2, full = 0,
       warningmsg = ''Battery is low'',
       criticalmsg = ''Battery is critically low'',
       fullmsg = ''Battery is full'',
       chargingmsg = ''Battery is charging'',
       dischargingmsg = ''Battery is discharging'',
       dangercmd = '''', msgcmd = '''',
       appname = progname, icon = None, notification_expires = 0 \<rparr>"

text \<open>The battery globals: \<^verbatim>\<open>battery_discharging\<close>, \<^verbatim>\<open>battery_full\<close>,
  \<^verbatim>\<open>battery_state\<close>, \<^verbatim>\<open>battery_level\<close>, \<^verbatim>\<open>energy_full\<close>, \<^verbatim>\<open>energy_now\<close>.\<close>

record battery =
  battery_discharging :: bool
  battery_full :: bool
  battery_state :: state
  battery_level :: int
  energy_full :: int
  energy_now :: int

definition initial_battery :: battery where
  "initial_battery =
     \<lparr> battery_discharging = False, battery_full = True, battery_state = STATE_AC,
       battery_level = 100, energy_full = 0, energy_now = 0 \<rparr>"

text \<open>
  Every way the program stops, and one way it leaves the C language:
  \<^item> \<open>Exit_help\<close>, \<open>Exit_version\<close>: \<^verbatim>\<open>exit(0)\<close> after \<^verbatim>\<open>-h\<close> and \<^verbatim>\<open>-v\<close>;
  \<^item> \<open>Unknown_option\<close>, \<open>Option_requires_argument\<close>: the two \<^verbatim>\<open>errx\<close> of \<^verbatim>\<open>parse_args\<close>;
  \<^item> \<open>Must_be_between c n\<close>: \<^verbatim>\<open>errx(EXIT_FAILURE, rangemsg, c, n)\<close>;
  \<^item> \<open>Warning_not_greater\<close>, \<open>Critical_not_greater\<close>, \<open>Full_not_greater n\<close>: the three
    ordering \<^verbatim>\<open>errx\<close> of \<^verbatim>\<open>validate_options\<close>;
  \<^item> \<open>Could_not_read i a\<close>: \<^verbatim>\<open>err(EXIT_FAILURE, "Could not read %s", attr_path)\<close> for
    attribute file \<open>a\<close> of battery number \<open>i\<close>;
  \<^item> \<open>Level_undefined\<close>: not an exit. The double that \<^verbatim>\<open>round\<close> returns does not fit
    an \<^verbatim>\<open>int\<close> (it is infinite or not a number after a division by zero, or too big),
    so that C gives the assignment to \<^verbatim>\<open>battery_level\<close> no defined value; the program
    itself goes on with whatever the conversion left.
\<close>

datatype attribute = Status_file | Now_file | Full_file

datatype stop =
    Exit_help | Exit_version
  | Unknown_option | Option_requires_argument
  | Must_be_between char int
  | Warning_not_greater | Critical_not_greater | Full_not_greater int
  | Could_not_read nat attribute
  | Level_undefined

subsection \<open>Conversions between the C integer types\<close>

text \<open>
  \<open>to_int\<close> is the conversion of a value to \<^verbatim>\<open>int\<close> (32 bits, two's complement: the
  value modulo \<open>2^32\<close> read as signed, which is what gcc and clang define for the
  conversion from \<^verbatim>\<open>unsigned\<close>); \<open>to_unsigned\<close> the conversion to \<^verbatim>\<open>unsigned int\<close>.
  On a signed result that overflows the model wraps as the hardware does.
\<close>

definition to_int :: "int \<Rightarrow> int" where
  "to_int x = sint (word_of_int x :: 32 word)"

definition to_unsigned :: "int \<Rightarrow> nat" where
  "to_unsigned x = nat (x mod 2 ^ 32)"

section \<open>validate_options\<close>

text \<open>
  The checks of \<^verbatim>\<open>validate_options\<close> in the order of the source; each \<^verbatim>\<open>errx\<close> ends
  the program, so the first failing check decides. \<open>lowlvl\<close> starts as \<^verbatim>\<open>danger\<close>.
\<close>

definition validate_options :: "options \<Rightarrow> stop + unit" where
  "validate_options opts =
     (let lowlvl = danger opts in
      if warning opts > 100 \<or> warning opts < 0 then Inl (Must_be_between CHR ''w'' 100)
      else if critical opts > 100 \<or> critical opts < 0 then Inl (Must_be_between CHR ''c'' 100)
      else if danger opts > 100 \<or> danger opts < 0 then Inl (Must_be_between CHR ''d'' 100)
      else if full opts > 100 \<or> full opts < 0 then Inl (Must_be_between CHR ''f'' 100)
      else if multiplier opts < 0 \<or> multiplier opts > 3600
        then Inl (Must_be_between CHR ''m'' 3600)
      else if warning opts \<noteq> 0 \<and> warning opts \<le> critical opts then Inl Warning_not_greater
      else if critical opts \<noteq> 0 \<and> critical opts \<le> danger opts then Inl Critical_not_greater
      else
        let lowlvl =
              (if warning opts \<noteq> 0 \<or> critical opts \<noteq> 0
               then (if warning opts \<noteq> 0 then warning opts else critical opts)
               else lowlvl)
        in if full opts \<noteq> 0 \<and> full opts \<le> lowlvl then Inl (Full_not_greater lowlvl)
           else Inr ())"

section \<open>parse_args\<close>

text \<open>
  \<^verbatim>\<open>getopt\<close> and \<^verbatim>\<open>strtoul\<close> are libc: the argument vector is modelled as the list of
  pairs \<open>(c, optarg)\<close> that successive \<^verbatim>\<open>getopt\<close> calls return (\<open>c\<close> is \<^verbatim>\<open>'?'\<close> for an
  unknown option and \<^verbatim>\<open>':'\<close> for a missing argument), and \<open>strtoul\<close> is a parameter
  giving the \<^verbatim>\<open>unsigned long\<close> that \<^verbatim>\<open>strtoul(s, NULL, 10)\<close> returns. The assignment
  to an \<^verbatim>\<open>int\<close> global converts it (\<open>to_int\<close>). The cases stand in the order of the
  \<^verbatim>\<open>switch\<close>; a character with no case leaves the options as they are.
\<close>

definition parse_arg :: "(string \<Rightarrow> nat) \<Rightarrow> char \<times> string \<Rightarrow> options \<Rightarrow> stop + options" where
  "parse_arg strtoul arg opts =
     (let c = fst arg; optarg = snd arg in
      if c = CHR ''h'' then Inl Exit_help
      else if c = CHR ''v'' then Inl Exit_version
      else if c = CHR ''b'' then Inr (opts\<lparr>daemonize := True\<rparr>)
      else if c = CHR ''o'' then Inr (opts\<lparr>run_once := True\<rparr>)
      else if c = CHR ''i'' then Inr (opts\<lparr>battery_required := False\<rparr>)
      else if c = CHR ''w'' then Inr (opts\<lparr>warning := to_int (int (strtoul optarg))\<rparr>)
      else if c = CHR ''c'' then Inr (opts\<lparr>critical := to_int (int (strtoul optarg))\<rparr>)
      else if c = CHR ''d'' then Inr (opts\<lparr>danger := to_int (int (strtoul optarg))\<rparr>)
      else if c = CHR ''f''
        then Inr (opts\<lparr>full := to_int (int (strtoul optarg)), fixed := True\<rparr>)
      else if c = CHR ''p'' then Inr (opts\<lparr>show_charging_msg := True, fixed := True\<rparr>)
      else if c = CHR ''W'' then Inr (opts\<lparr>warningmsg := optarg\<rparr>)
      else if c = CHR ''C'' then Inr (opts\<lparr>criticalmsg := optarg\<rparr>)
      else if c = CHR ''D'' then Inr (opts\<lparr>dangercmd := optarg\<rparr>)
      else if c = CHR ''F'' then Inr (opts\<lparr>fullmsg := optarg\<rparr>)
      else if c = CHR ''P'' then Inr (opts\<lparr>chargingmsg := optarg\<rparr>)
      else if c = CHR ''U'' then Inr (opts\<lparr>dischargingmsg := optarg\<rparr>)
      else if c = CHR ''M'' then Inr (opts\<lparr>msgcmd := optarg\<rparr>)
      else if c = CHR ''N'' then Inr (opts\<lparr>show_notifications := False\<rparr>)
      else if c = CHR ''n'' then Inr (opts\<lparr>battery_name_specified := True\<rparr>)
      else if c = CHR ''m'' then
        (if optarg \<noteq> [] \<and> hd optarg = CHR ''+''
         then Inr (opts\<lparr>fixed := True, multiplier := to_int (int (strtoul (tl optarg)))\<rparr>)
         else Inr (opts\<lparr>multiplier := to_int (int (strtoul optarg))\<rparr>))
      else if c = CHR ''a'' then Inr (opts\<lparr>appname := optarg\<rparr>)
      else if c = CHR ''I'' then Inr (opts\<lparr>icon := Some optarg\<rparr>)
      else if c = CHR ''e'' then Inr (opts\<lparr>notification_expires := - 1\<rparr>)
      else if c = CHR ''?'' then Inl Unknown_option
      else if c = CHR '':'' then Inl Option_requires_argument
      else Inr opts)"

text \<open>The \<^verbatim>\<open>while\<close> loop over \<^verbatim>\<open>getopt\<close>: it ends with the list, or at the first exit.\<close>

fun parse_args :: "(string \<Rightarrow> nat) \<Rightarrow> (char \<times> string) list \<Rightarrow> options \<Rightarrow> stop + options" where
  "parse_args strtoul [] opts = Inr opts"
| "parse_args strtoul (arg # args) opts =
     (case parse_arg strtoul arg opts of
        Inl e \<Rightarrow> Inl e
      | Inr opts' \<Rightarrow> parse_args strtoul args opts')"

text \<open>
  The start of \<^verbatim>\<open>main\<close>: the options of the configuration file when there is one
  (\<open>conf_argv\<close>), then those of the command line, then \<^verbatim>\<open>validate_options\<close>.
\<close>

definition main_options ::
  "(string \<Rightarrow> nat) \<Rightarrow> (char \<times> string) list option \<Rightarrow> (char \<times> string) list \<Rightarrow> options
     \<Rightarrow> stop + options" where
  "main_options strtoul conf_argv argv opts =
     (case (case conf_argv of None \<Rightarrow> Inr opts | Some conf \<Rightarrow> parse_args strtoul conf opts) of
        Inl e \<Rightarrow> Inl e
      | Inr opts1 \<Rightarrow>
          (case parse_args strtoul argv opts1 of
             Inl e \<Rightarrow> Inl e
           | Inr opts2 \<Rightarrow>
               (case validate_options opts2 of Inl e \<Rightarrow> Inl e | Inr _ \<Rightarrow> Inr opts2)))"

section \<open>update_batteries\<close>

text \<open>
  What the power-supply directory gives in one call of \<^verbatim>\<open>update_batteries\<close>: whether
  \<^verbatim>\<open>charge_now\<close> and \<^verbatim>\<open>energy_now\<close> exist for the first battery (\<^verbatim>\<open>access\<close> in
  \<^verbatim>\<open>set_attributes\<close>), and for each battery of the list the outcome of its three reads.
  A read is \<open>None\<close> when \<^verbatim>\<open>fopen\<close> returns \<^verbatim>\<open>NULL\<close> or \<^verbatim>\<open>fscanf\<close> returns 0, else the
  value converted: the word of \<^verbatim>\<open>%12s\<close>, the \<^verbatim>\<open>unsigned int\<close> of \<^verbatim>\<open>%u\<close>. (An empty
  file, where \<^verbatim>\<open>fscanf\<close> returns \<^verbatim>\<open>EOF\<close> and the variable keeps an indeterminate
  value, is outside the model.) The full-attribute file is only looked at when
  \<^verbatim>\<open>full_attribute\<close> is not \<^verbatim>\<open>NULL\<close>.
\<close>

record reading =
  status_read :: "string option"
  now_read :: "32 word option"
  full_read :: "32 word option"

record sysfs =
  charge_now_exists :: bool
  energy_now_exists :: bool
  readings :: "reading list"

text \<open>\<^verbatim>\<open>set_attributes\<close>: the pair \<open>(now_attribute, full_attribute)\<close>.\<close>

definition set_attributes :: "sysfs \<Rightarrow> string \<times> string option" where
  "set_attributes sys =
     (if charge_now_exists sys then (''charge_now'', Some ''charge_full'')
      else if energy_now_exists sys then (''energy_now'', Some ''energy_full'')
      else (''capacity'', None))"

text \<open>
  The \<^verbatim>\<open>for\<close> loop over the batteries, \<open>i\<close> the index of the head of the list. Each
  unreadable file is fatal when \<^verbatim>\<open>battery_required\<close>, else the battery is left
  (\<^verbatim>\<open>continue\<close>): after the status read the two flags are already updated. The sums
  are \<^verbatim>\<open>int += unsigned int\<close>: computed modulo \<open>2^32\<close> and converted back to \<^verbatim>\<open>int\<close>.
\<close>

fun update_batteries_loop ::
  "bool \<Rightarrow> string option \<Rightarrow> nat \<Rightarrow> reading list \<Rightarrow> battery \<Rightarrow> stop + battery" where
  "update_batteries_loop required full_attribute i [] b = Inr b"
| "update_batteries_loop required full_attribute i (r # rs) b =
     (case status_read r of
        None \<Rightarrow>
          if required then Inl (Could_not_read i Status_file)
          else update_batteries_loop required full_attribute (Suc i) rs b
      | Some state \<Rightarrow>
          let b1 = b\<lparr> battery_discharging := battery_discharging b \<or> state = ''Discharging'',
                      battery_full := battery_full b \<and> state = ''Full'' \<rparr>
          in (case now_read r of
                None \<Rightarrow>
                  if required then Inl (Could_not_read i Now_file)
                  else update_batteries_loop required full_attribute (Suc i) rs b1
              | Some tmp_now \<Rightarrow>
                  (case (if full_attribute \<noteq> None then full_read r else Some 100) of
                     None \<Rightarrow>
                       if required then Inl (Could_not_read i Full_file)
                       else update_batteries_loop required full_attribute (Suc i) rs b1
                   | Some tmp_full \<Rightarrow>
                       update_batteries_loop required full_attribute (Suc i) rs
                         (b1\<lparr> energy_now := to_int (energy_now b1 + uint tmp_now),
                              energy_full := to_int (energy_full b1 + uint tmp_full) \<rparr>))))"

text \<open>
  C's \<^verbatim>\<open>round\<close>: to the nearest integer, halfway cases away from zero.
\<close>

definition round_c :: "rat \<Rightarrow> int" where
  "round_c x = (if 0 \<le> x then \<lfloor>x + 1 / 2\<rfloor> else \<lceil>x - 1 / 2\<rceil>)"

text \<open>
  \<^verbatim>\<open>battery_level = round(100.0 * energy_now / energy_full)\<close>. The source computes
  the quotient in double precision; the model computes it exactly, which gives the same
  rounded value: the product \<open>a = 100 * energy_now\<close> is below \<open>2^38\<close> in size and
  exact in a double; a quotient \<open>q = a / energy_full\<close> that is not a half-integer is at
  least \<open>1 / (2 * |energy_full|) = |q| / (2 * |a|) > |q| / 2^39\<close> away from the nearest
  one, and its double is at most \<open>|q| / 2^53\<close> away from it, so the double lies on the same
  side of every half-integer as \<open>q\<close>. With \<^verbatim>\<open>energy_full\<close> zero the quotient is
  infinite or not a number, and with a rounded value outside \<^verbatim>\<open>int\<close> the conversion
  has no defined result either: \<open>None\<close>.
\<close>

definition level_of :: "int \<Rightarrow> int \<Rightarrow> int option" where
  "level_of now_sum full_sum =
     (if full_sum = 0 then None
      else let r = round_c (100 * of_int now_sum / of_int full_sum)
           in if - (2 ^ 31) \<le> r \<and> r < 2 ^ 31 then Some r else None)"

definition update_batteries :: "options \<Rightarrow> sysfs \<Rightarrow> battery \<Rightarrow> stop + battery" where
  "update_batteries opts sys b =
     (let full_attribute = snd (set_attributes sys) in
      case update_batteries_loop (battery_required opts) full_attribute 0 (readings sys)
             (b\<lparr> battery_discharging := False, battery_full := True,
                 energy_now := 0, energy_full := 0 \<rparr>) of
        Inl e \<Rightarrow> Inl e
      | Inr b' \<Rightarrow>
          (case level_of (energy_now b') (energy_full b') of
             None \<Rightarrow> Inl Level_undefined
           | Some l \<Rightarrow> Inr (b'\<lparr> battery_level := l \<rparr>)))"

section \<open>update_notification and the loop of main\<close>

text \<open>
  What one cycle does to the outside world:
  \<^item> \<open>System cmd\<close>: \<^verbatim>\<open>system(dangercmd)\<close>;
  \<^item> \<open>Msgcmd fmt msg level\<close>: \<^verbatim>\<open>system\<close> of the \<^verbatim>\<open>msgcmd\<close> format filled with the
    message and the level;
  \<^item> \<open>Notification_show msg level urgency\<close>: the desktop notification is updated with
    the message and the body \<^verbatim>\<open>"Battery level: %u%%"\<close>, and shown;
  \<^item> \<open>Notification_close\<close>: \<^verbatim>\<open>notify_notification_close\<close>.
\<close>

datatype urgency = NOTIFY_URGENCY_LOW | NOTIFY_URGENCY_NORMAL | NOTIFY_URGENCY_CRITICAL

datatype action =
    System string
  | Msgcmd string string int
  | Notification_show string int urgency
  | Notification_close

text \<open>
  \<^verbatim>\<open>update_notification\<close>; \<open>notification\<close> says that the pointer is not \<^verbatim>\<open>NULL\<close>
  (\<^verbatim>\<open>main\<close> creates the notification only when \<^verbatim>\<open>show_notifications\<close>). The filling
  of the \<^verbatim>\<open>msgcmd\<close> format and of the body is libc's and stays inside the action; the
  buffer of the body has room for a level of three digits, and what a longer one
  overwrites is not followed.
\<close>

definition update_notification ::
  "options \<Rightarrow> bool \<Rightarrow> int \<Rightarrow> string \<Rightarrow> urgency \<Rightarrow> action list" where
  "update_notification opts notification level msg urg =
     (if msgcmd opts \<noteq> [] then [Msgcmd (msgcmd opts) msg level] else []) @
     (if notification \<and> show_notifications opts \<and> msg \<noteq> []
      then [Notification_show msg level urg] else [])"

text \<open>The result of one pass of the loop: the battery globals, \<^verbatim>\<open>duration\<close>, and
  what was done.\<close>

record cycle =
  after :: battery
  duration :: nat
  actions :: "action list"

text \<open>
  The body of the \<^verbatim>\<open>for(;;)\<close> loop after \<^verbatim>\<open>update_batteries\<close>: from
  \<^verbatim>\<open>duration = multiplier\<close> to the end of the \<^verbatim>\<open>if (battery_discharging)\<close> statement.
  \<^verbatim>\<open>duration\<close> is an \<^verbatim>\<open>unsigned int\<close>, so each assignment converts.
\<close>

definition main_branch :: "options \<Rightarrow> bool \<Rightarrow> bool \<Rightarrow> battery \<Rightarrow> cycle" where
  "main_branch opts notification previous_discharging_status b =
     (let level = battery_level b;
          duration0 = to_unsigned (multiplier opts)
      in
      if battery_discharging b then
        if danger opts \<noteq> 0 \<and> level \<le> danger opts then
          (if battery_state b \<noteq> STATE_DANGER
           then \<lparr> after = b\<lparr>battery_state := STATE_DANGER\<rparr>, duration = duration0,
                  actions = (if dangercmd opts \<noteq> [] then [System (dangercmd opts)] else []) \<rparr>
           else \<lparr> after = b, duration = duration0, actions = [] \<rparr>)
        else if critical opts \<noteq> 0 \<and> level \<le> critical opts then
          (if battery_state b \<noteq> STATE_CRITICAL
           then \<lparr> after = b\<lparr>battery_state := STATE_CRITICAL\<rparr>, duration = duration0,
                  actions = update_notification opts notification level
                              (criticalmsg opts) NOTIFY_URGENCY_CRITICAL \<rparr>
           else \<lparr> after = b, duration = duration0, actions = [] \<rparr>)
        else if warning opts \<noteq> 0 \<and> level \<le> warning opts then
          (let duration1 =
                 (if \<not> fixed opts
                  then to_unsigned ((level - critical opts) * multiplier opts)
                  else duration0)
           in if battery_state b \<noteq> STATE_WARNING
              then \<lparr> after = b\<lparr>battery_state := STATE_WARNING\<rparr>, duration = duration1,
                     actions = update_notification opts notification level
                                 (warningmsg opts) NOTIFY_URGENCY_NORMAL \<rparr>
              else \<lparr> after = b, duration = duration1, actions = [] \<rparr>)
        else
          \<lparr> after = b\<lparr>battery_state := STATE_DISCHARGING\<rparr>,
            duration =
              (if \<not> fixed opts
               then to_unsigned ((level - warning opts) * multiplier opts)
               else duration0),
            actions =
              (if show_charging_msg opts
                    \<and> battery_discharging b \<noteq> previous_discharging_status
               then update_notification opts notification level
                      (dischargingmsg opts) NOTIFY_URGENCY_NORMAL
               else if battery_state b = STATE_FULL then [Notification_close]
               else []) \<rparr>
      else
        if (full opts \<noteq> 0 \<and> battery_state b \<noteq> STATE_FULL)
             \<and> (level \<ge> full opts \<or> battery_full b) then
          \<lparr> after = b\<lparr>battery_state := STATE_FULL\<rparr>, duration = duration0,
            actions = update_notification opts notification level
                        (fullmsg opts) NOTIFY_URGENCY_NORMAL \<rparr>
        else if show_charging_msg opts
                  \<and> battery_discharging b \<noteq> previous_discharging_status then
          \<lparr> after = b\<lparr>battery_state := STATE_AC\<rparr>, duration = duration0,
            actions = update_notification opts notification level
                        (chargingmsg opts) NOTIFY_URGENCY_NORMAL \<rparr>
        else
          \<lparr> after = b\<lparr>battery_state := STATE_AC\<rparr>, duration = duration0,
            actions = [Notification_close] \<rparr>)"

text \<open>
  One pass of the loop: remember the discharging flag, read the batteries, branch.
\<close>

definition main_loop_body :: "options \<Rightarrow> bool \<Rightarrow> sysfs \<Rightarrow> battery \<Rightarrow> stop + cycle" where
  "main_loop_body opts notification sys b =
     (let previous_discharging_status = battery_discharging b in
      case update_batteries opts sys b of
        Inl e \<Rightarrow> Inl e
      | Inr b' \<Rightarrow> Inr (main_branch opts notification previous_discharging_status b'))"

text \<open>
  The end of a pass: leave the loop, wait for the signal, or wait for it at most
  \<^verbatim>\<open>duration\<close> seconds.
\<close>

datatype wait = Break | Sigwaitinfo | Sigtimedwait nat

definition main_wait :: "options \<Rightarrow> nat \<Rightarrow> wait" where
  "main_wait opts d =
     (if run_once opts then Break
      else if multiplier opts = 0 then Sigwaitinfo
      else Sigtimedwait d)"

text \<open>
  The loop runs for ever unless \<^verbatim>\<open>run_once\<close>; its input is what the power-supply
  directory holds at each pass. \<open>main_loop\<close> runs it over a finite list of such inputs,
  from the battery globals \<open>b\<close> that the call of \<^verbatim>\<open>update_batteries\<close> before the loop
  left, and returns the passes made, with the stop that ended them if one did (at
  \<open>Level_undefined\<close> the model stops following the program).
\<close>

fun main_loop :: "options \<Rightarrow> bool \<Rightarrow> sysfs list \<Rightarrow> battery \<Rightarrow> cycle list \<times> stop option" where
  "main_loop opts notification [] b = ([], None)"
| "main_loop opts notification (sys # rest) b =
     (case main_loop_body opts notification sys b of
        Inl e \<Rightarrow> ([], Some e)
      | Inr c \<Rightarrow>
          if main_wait opts (duration c) = Break then ([c], None)
          else (case main_loop opts notification rest (after c) of
                  (cs, e) \<Rightarrow> (c # cs, e)))"

section \<open>Notions the statements use\<close>

subsection \<open>Concrete inputs\<close>

text \<open>The options as initialised, a battery discharging at a given level, and the
  power-supply directory of one battery that only has \<^verbatim>\<open>capacity\<close>.\<close>

definition example_options :: options where
  "example_options = initial_options ''batsignal''"

definition discharging_at :: "int \<Rightarrow> battery" where
  "discharging_at l =
     initial_battery\<lparr> battery_discharging := True, battery_full := False, battery_level := l \<rparr>"

definition capacity_only :: "string \<Rightarrow> 32 word \<Rightarrow> sysfs" where
  "capacity_only st l =
     \<lparr> charge_now_exists = False, energy_now_exists = False,
       readings = [\<lparr> status_read = Some st, now_read = Some l, full_read = None \<rparr>] \<rparr>"

definition charge_files :: "(string \<times> 32 word \<times> 32 word) list \<Rightarrow> sysfs" where
  "charge_files ds =
     \<lparr> charge_now_exists = True, energy_now_exists = False,
       readings = map (\<lambda>(st, n, f). \<lparr> status_read = Some st, now_read = Some n,
                                      full_read = Some f \<rparr>) ds \<rparr>"

subsection \<open>Validation, as the specification words it\<close>

text \<open>The highest nonzero of two thresholds, when there is one.\<close>

definition highest_nonzero :: "int \<Rightarrow> int \<Rightarrow> int option" where
  "highest_nonzero x y =
     (if x \<noteq> 0 \<and> y \<noteq> 0 then Some (max x y)
      else if x \<noteq> 0 then Some x
      else if y \<noteq> 0 then Some y
      else None)"

definition out_of_range :: "options \<Rightarrow> bool" where
  "out_of_range opts =
     (warning opts < 0 \<or> 100 < warning opts \<or> critical opts < 0 \<or> 100 < critical opts
      \<or> danger opts < 0 \<or> 100 < danger opts \<or> full opts < 0 \<or> 100 < full opts
      \<or> multiplier opts < 0 \<or> 3600 < multiplier opts)"

definition out_of_order :: "options \<Rightarrow> bool" where
  "out_of_order opts =
     (warning opts \<noteq> 0 \<and> critical opts \<noteq> 0 \<and> warning opts \<le> critical opts
      \<or> critical opts \<noteq> 0 \<and> danger opts \<noteq> 0 \<and> critical opts \<le> danger opts)"

text \<open>Rejection as stated: \<^verbatim>\<open>full\<close> is only compared with the highest nonzero of
  \<^verbatim>\<open>warning\<close> and \<^verbatim>\<open>critical\<close>.\<close>

definition rejected_as_stated :: "options \<Rightarrow> bool" where
  "rejected_as_stated opts =
     (out_of_range opts \<or> out_of_order opts
      \<or> full opts \<noteq> 0
          \<and> (case highest_nonzero (warning opts) (critical opts) of
               None \<Rightarrow> False
             | Some h \<Rightarrow> full opts \<le> h))"

text \<open>Rejection with \<^verbatim>\<open>danger\<close> as the bound of \<^verbatim>\<open>full\<close> when \<^verbatim>\<open>warning\<close> and
  \<^verbatim>\<open>critical\<close> are both zero.\<close>

definition rejected :: "options \<Rightarrow> bool" where
  "rejected opts =
     (out_of_range opts \<or> out_of_order opts
      \<or> full opts \<noteq> 0
          \<and> (case highest_nonzero (warning opts) (critical opts) of
               None \<Rightarrow> full opts \<le> danger opts
             | Some h \<Rightarrow> full opts \<le> h))"

subsection \<open>Dispatch\<close>

text \<open>An action that sends something: a command run or a notification shown. Closing
  the notification sends nothing.\<close>

fun fires :: "action \<Rightarrow> bool" where
  "fires (System cmd) = True"
| "fires (Msgcmd fmt msg level) = True"
| "fires (Notification_show msg level urg) = True"
| "fires Notification_close = False"

text \<open>A pass that leaves the state and the discharging flag as it found them.\<close>

definition unchanged :: "battery \<Rightarrow> cycle \<Rightarrow> bool" where
  "unchanged before c =
     (battery_state (after c) = battery_state before
      \<and> battery_discharging (after c) = battery_discharging before)"

text \<open>The battery globals at the start of each pass of a run that began with \<open>b\<close>.\<close>

fun befores :: "battery \<Rightarrow> cycle list \<Rightarrow> battery list" where
  "befores b [] = []"
| "befores b (c # cs) = b # befores (after c) cs"

subsection \<open>Aggregation\<close>

text \<open>
  What one battery adds to the two sums, when all its reads succeed: its now-value and
  its full-value, or its percentage and 100 when there is no full attribute.
\<close>

definition contribution :: "string option \<Rightarrow> reading \<Rightarrow> (int \<times> int) option" where
  "contribution full_attribute r =
     (case (status_read r, now_read r) of
        (Some st, Some n) \<Rightarrow>
          (case full_attribute of
             None \<Rightarrow> Some (uint n, 100)
           | Some a \<Rightarrow>
               (case full_read r of None \<Rightarrow> None | Some f \<Rightarrow> Some (uint n, uint f)))
      | _ \<Rightarrow> None)"

definition now_total :: "string option \<Rightarrow> reading list \<Rightarrow> int" where
  "now_total full_attribute rs =
     sum_list (map fst (List.map_filter (contribution full_attribute) rs))"

definition full_total :: "string option \<Rightarrow> reading list \<Rightarrow> int" where
  "full_total full_attribute rs =
     sum_list (map snd (List.map_filter (contribution full_attribute) rs))"

text \<open>The two sums over the batteries of one call, and whether every battery of the
  call can be read.\<close>

definition energy_now_sum :: "sysfs \<Rightarrow> int" where
  "energy_now_sum sys = now_total (snd (set_attributes sys)) (readings sys)"

definition energy_full_sum :: "sysfs \<Rightarrow> int" where
  "energy_full_sum sys = full_total (snd (set_attributes sys)) (readings sys)"

definition all_readable :: "sysfs \<Rightarrow> bool" where
  "all_readable sys =
     list_all (\<lambda>r. contribution (snd (set_attributes sys)) r \<noteq> None) (readings sys)"

text \<open>Rounding to the nearest integer, a half going away from zero.\<close>

definition round_half_away :: "rat \<Rightarrow> int" where
  "round_half_away x = (if x < 0 then - \<lfloor>\<bar>x\<bar> + 1 / 2\<rfloor> else \<lfloor>\<bar>x\<bar> + 1 / 2\<rfloor>)"

section \<open>Facts about the model\<close>

subsection \<open>Integers\<close>

lemma to_int_add_left: "to_int (to_int a + c) = to_int (a + c)"
  by (simp add: to_int_def)

lemma to_int_exact:
  assumes "- (2 ^ 31) \<le> x" and "x < 2 ^ 31"
  shows "to_int x = x"
proof -
  have "signed_take_bit 31 x = x"
    by (rule signed_take_bit_int_eq_self) (use assms in simp_all)
  then show ?thesis by (simp add: to_int_def sint_sbintrunc')
qed

lemma to_unsigned_exact: "0 \<le> x \<Longrightarrow> x < 2 ^ 32 \<Longrightarrow> int (to_unsigned x) = x"
  by (simp add: to_unsigned_def)


lemma int_div_less:
  fixes a d k :: int
  assumes "0 < d" and "a < k * d"
  shows "a div d < k"
proof (rule ccontr)
  assume "\<not> a div d < k"
  then have "k \<le> a div d" by simp
  then have "k * d \<le> a div d * d"
    using assms(1) by (simp add: mult_right_mono)
  also have "\<dots> = a - a mod d"
    by (simp add: minus_mod_eq_div_mult)
  also have "\<dots> \<le> a"
    using assms(1) by (simp add: pos_mod_sign)
  finally show False using assms(2) by simp
qed

subsection \<open>Validated options\<close>

lemma validate_options_range:
  assumes "validate_options opts = Inr ()"
  shows "0 \<le> warning opts" "warning opts \<le> 100" "0 \<le> critical opts" "critical opts \<le> 100"
    "0 \<le> danger opts" "danger opts \<le> 100" "0 \<le> full opts" "full opts \<le> 100"
    "0 \<le> multiplier opts" "multiplier opts \<le> 3600"
  using assms unfolding validate_options_def Let_def
  by (simp_all split: if_splits)

subsection \<open>The branch taken\<close>

lemma main_branch_state:
  "battery_state (after (main_branch opts notification previous b)) =
     (if battery_discharging b then
        if danger opts \<noteq> 0 \<and> battery_level b \<le> danger opts then STATE_DANGER
        else if critical opts \<noteq> 0 \<and> battery_level b \<le> critical opts then STATE_CRITICAL
        else if warning opts \<noteq> 0 \<and> battery_level b \<le> warning opts then STATE_WARNING
        else STATE_DISCHARGING
      else if (full opts \<noteq> 0 \<and> battery_state b \<noteq> STATE_FULL)
            \<and> (battery_level b \<ge> full opts \<or> battery_full b) then STATE_FULL
      else STATE_AC)"
  by (simp add: main_branch_def Let_def)

lemma main_branch_duration:
  "duration (main_branch opts notification previous b) =
     (if battery_discharging b \<and> \<not> fixed opts then
        if danger opts \<noteq> 0 \<and> battery_level b \<le> danger opts then to_unsigned (multiplier opts)
        else if critical opts \<noteq> 0 \<and> battery_level b \<le> critical opts
          then to_unsigned (multiplier opts)
        else if warning opts \<noteq> 0 \<and> battery_level b \<le> warning opts
          then to_unsigned ((battery_level b - critical opts) * multiplier opts)
        else to_unsigned ((battery_level b - warning opts) * multiplier opts)
      else to_unsigned (multiplier opts))"
  by (simp add: main_branch_def Let_def)

lemma main_branch_discharging:
  "battery_discharging (after (main_branch opts notification previous b)) = battery_discharging b"
  by (simp add: main_branch_def Let_def)


subsection \<open>The aggregation loop\<close>

lemma totals_Nil: "now_total fa [] = 0" "full_total fa [] = 0"
  by (simp_all add: now_total_def full_total_def)

lemma totals_Cons:
  "now_total fa (r # rs) =
     (case contribution fa r of None \<Rightarrow> 0 | Some p \<Rightarrow> fst p) + now_total fa rs"
  "full_total fa (r # rs) =
     (case contribution fa r of None \<Rightarrow> 0 | Some p \<Rightarrow> snd p) + full_total fa rs"
  by (simp_all add: now_total_def full_total_def split: option.splits)

lemma totals_nonneg: "0 \<le> now_total fa rs" "0 \<le> full_total fa rs"
proof -
  have c: "0 \<le> fst p \<and> 0 \<le> snd p" if "contribution fa r = Some p" for r p
    using that by (auto simp: contribution_def split: option.splits)
  show "0 \<le> now_total fa rs"
    by (induction rs) (auto simp: totals_Nil totals_Cons dest: c split: option.splits)
  show "0 \<le> full_total fa rs"
    by (induction rs) (auto simp: totals_Nil totals_Cons dest: c split: option.splits)
qed

text \<open>One pass of the loop, by whether the battery contributes.\<close>

lemma update_batteries_loop_step:
  "update_batteries_loop required fa i (r # rs) b =
     (case contribution fa r of
        Some p \<Rightarrow>
          update_batteries_loop required fa (Suc i) rs
            (b\<lparr> battery_discharging :=
                  battery_discharging b \<or> status_read r = Some ''Discharging'',
                battery_full := battery_full b \<and> status_read r = Some ''Full'',
                energy_now := to_int (energy_now b + fst p),
                energy_full := to_int (energy_full b + snd p) \<rparr>)
      | None \<Rightarrow>
          if required then
            Inl (Could_not_read i
                   (if status_read r = None then Status_file
                    else if now_read r = None then Now_file else Full_file))
          else
            update_batteries_loop required fa (Suc i) rs
              (b\<lparr> battery_discharging :=
                    battery_discharging b \<or> status_read r = Some ''Discharging'',
                  battery_full :=
                    battery_full b
                    \<and> (status_read r = None \<or> status_read r = Some ''Full'') \<rparr>))"
  by (cases "status_read r"; cases "now_read r"; cases fa; cases "full_read r")
     (simp_all add: contribution_def Let_def)

lemma update_batteries_loop_result:
  assumes "update_batteries_loop required fa i rs b = Inr b'"
    and "energy_now b = to_int n" and "energy_full b = to_int f"
  shows "battery_state b' = battery_state b
         \<and> energy_now b' = to_int (n + now_total fa rs)
         \<and> energy_full b' = to_int (f + full_total fa rs)"
  using assms
proof (induction rs arbitrary: i b n f)
  case Nil
  then show ?case by (simp add: totals_Nil)
next
  case (Cons r rs)
  show ?case
  proof (cases "contribution fa r")
    case None
    with Cons.prems(1) have nr: "\<not> required"
      by (simp add: update_batteries_loop_step del: update_batteries_loop.simps
          split: if_splits)
    from Cons.prems(1) None nr
    have "update_batteries_loop required fa (Suc i) rs
            (b\<lparr> battery_discharging :=
                  battery_discharging b \<or> status_read r = Some ''Discharging'',
                battery_full :=
                  battery_full b
                  \<and> (status_read r = None \<or> status_read r = Some ''Full'') \<rparr>)
          = Inr b'"
      by (simp add: update_batteries_loop_step del: update_batteries_loop.simps)
    from Cons.IH [OF this, of n f] Cons.prems(2,3) None show ?thesis
      by (simp add: totals_Cons)
  next
    case (Some p)
    with Cons.prems(1)
    have "update_batteries_loop required fa (Suc i) rs
            (b\<lparr> battery_discharging :=
                  battery_discharging b \<or> status_read r = Some ''Discharging'',
                battery_full := battery_full b \<and> status_read r = Some ''Full'',
                energy_now := to_int (energy_now b + fst p),
                energy_full := to_int (energy_full b + snd p) \<rparr>) = Inr b'"
      by (simp add: update_batteries_loop_step del: update_batteries_loop.simps)
    from Cons.IH [OF this, of "n + fst p" "f + snd p"] Cons.prems(2,3) Some show ?thesis
      by (simp add: totals_Cons to_int_add_left add.assoc)
  qed
qed

lemma update_batteries_loop_returns:
  assumes "required \<longrightarrow> (\<forall>r \<in> set rs. contribution fa r \<noteq> None)"
  shows "\<exists>b'. update_batteries_loop required fa i rs b = Inr b'"
  using assms
proof (induction rs arbitrary: i b)
  case Nil
  then show ?case by simp
next
  case (Cons r rs)
  then show ?case
    by (cases "contribution fa r")
       (auto simp: update_batteries_loop_step simp del: update_batteries_loop.simps)
qed

text \<open>What the loop returns when no read is fatal and both sums fit an \<^verbatim>\<open>int\<close>.\<close>

lemma update_batteries_sums:
  assumes "battery_required opts \<longrightarrow> all_readable sys"
    and "energy_now_sum sys < 2 ^ 31"
    and "energy_full_sum sys < 2 ^ 31"
  shows "\<exists>b'. update_batteries_loop (battery_required opts) (snd (set_attributes sys)) 0
                 (readings sys)
                 (b\<lparr> battery_discharging := False, battery_full := True,
                     energy_now := 0, energy_full := 0 \<rparr>) = Inr b'
              \<and> battery_state b' = battery_state b
              \<and> energy_now b' = energy_now_sum sys
              \<and> energy_full b' = energy_full_sum sys"
proof -
  let ?fa = "snd (set_attributes sys)"
  let ?b0 = "b\<lparr> battery_discharging := False, battery_full := True,
                 energy_now := 0, energy_full := 0 \<rparr>"
  from assms(1)
  have "battery_required opts \<longrightarrow> (\<forall>r \<in> set (readings sys). contribution ?fa r \<noteq> None)"
    by (simp add: all_readable_def list_all_iff)
  from update_batteries_loop_returns [OF this]
  obtain b' where l: "update_batteries_loop (battery_required opts) ?fa 0 (readings sys) ?b0
                        = Inr b'"
    by blast
  have "energy_now ?b0 = to_int 0" "energy_full ?b0 = to_int 0"
    by (simp_all add: to_int_def)
  from update_batteries_loop_result [OF l this]
  have "battery_state b' = battery_state b"
    and "energy_now b' = to_int (energy_now_sum sys)"
    and "energy_full b' = to_int (energy_full_sum sys)"
    by (simp_all add: energy_now_sum_def energy_full_sum_def)
  moreover have "to_int (energy_now_sum sys) = energy_now_sum sys"
    using totals_nonneg(1) [of ?fa "readings sys"] assms(2)
    by (intro to_int_exact) (auto simp: energy_now_sum_def)
  moreover have "to_int (energy_full_sum sys) = energy_full_sum sys"
    using totals_nonneg(2) [of ?fa "readings sys"] assms(3)
    by (intro to_int_exact) (auto simp: energy_full_sum_def)
  ultimately show ?thesis using l by simp
qed

lemma update_batteries_state:
  assumes "update_batteries opts sys b = Inr b'"
  shows "battery_state b' = battery_state b"
proof -
  from assms obtain b1 where
    l: "update_batteries_loop (battery_required opts) (snd (set_attributes sys)) 0 (readings sys)
          (b\<lparr> battery_discharging := False, battery_full := True,
              energy_now := 0, energy_full := 0 \<rparr>) = Inr b1"
    and "battery_state b' = battery_state b1"
    by (auto simp: update_batteries_def Let_def split: sum.splits option.splits)
  moreover from update_batteries_loop_result [OF l, of 0 0]
  have "battery_state b1 = battery_state b" by (simp add: to_int_def)
  ultimately show ?thesis by simp
qed

subsection \<open>Rounding\<close>

lemma round_c_half_away: "round_c x = round_half_away x"
  by (auto simp: round_c_def round_half_away_def ceiling_def)

lemma floor_half_up:
  fixes n f :: int
  assumes "0 < f"
  shows "\<lfloor>100 * rat_of_int n / rat_of_int f + 1 / 2\<rfloor> = (200 * n + f) div (2 * f)"
proof -
  have "100 * rat_of_int n / rat_of_int f + 1 / 2
          = rat_of_int (200 * n + f) / rat_of_int (2 * f)"
    using assms by (simp add: field_simps)
  then show ?thesis by (simp only: floor_divide_of_int_eq)
qed

lemma round_half_away_quotient:
  fixes n f :: int
  assumes "0 \<le> n" and "0 < f"
  shows "round_half_away (100 * rat_of_int n / rat_of_int f) = (200 * n + f) div (2 * f)"
proof -
  let ?q = "100 * rat_of_int n / rat_of_int f"
  have q: "0 \<le> ?q" using assms by simp
  then have "\<not> ?q < 0" and "\<bar>?q\<bar> = ?q"
    by (simp_all only: not_less abs_of_nonneg)
  then have "round_half_away ?q = \<lfloor>?q + 1 / 2\<rfloor>"
    unfolding round_half_away_def by (simp only: if_False)
  also have "\<dots> = (200 * n + f) div (2 * f)"
    by (rule floor_half_up [OF assms(2)])
  finally show ?thesis .
qed

text \<open>The level \<^verbatim>\<open>update_batteries\<close> assigns when no read is fatal, the sums fit an
  \<^verbatim>\<open>int\<close>, the full-sum is positive and the rounded quotient fits an \<^verbatim>\<open>int\<close>.\<close>

lemma update_batteries_level:
  assumes "battery_required opts \<longrightarrow> all_readable sys"
    and "0 < energy_full_sum sys"
    and "energy_full_sum sys < 2 ^ 31"
    and "energy_now_sum sys < 2 ^ 31"
    and "round_half_away (100 * of_int (energy_now_sum sys) / of_int (energy_full_sum sys))
           < 2 ^ 31"
  shows "\<exists>b'. update_batteries opts sys b = Inr b'
           \<and> battery_level b' =
               round_half_away (100 * of_int (energy_now_sum sys) / of_int (energy_full_sum sys))
           \<and> battery_level b' =
               (200 * energy_now_sum sys + energy_full_sum sys) div (2 * energy_full_sum sys)"
proof -
  let ?N = "energy_now_sum sys"
  let ?F = "energy_full_sum sys"
  let ?r = "round_half_away (100 * rat_of_int ?N / rat_of_int ?F)"
  from update_batteries_sums [OF assms(1) assms(4) assms(3), of b]
  obtain b1 where l: "update_batteries_loop (battery_required opts) (snd (set_attributes sys)) 0
                 (readings sys)
                 (b\<lparr> battery_discharging := False, battery_full := True,
                     energy_now := 0, energy_full := 0 \<rparr>) = Inr b1"
    and e: "energy_now b1 = ?N" "energy_full b1 = ?F"
    by blast
  have n: "0 \<le> ?N"
    unfolding energy_now_sum_def by (rule totals_nonneg(1))
  have r: "?r = (200 * ?N + ?F) div (2 * ?F)"
    by (rule round_half_away_quotient [OF n assms(2)])
  have "0 \<le> ?r"
    using n assms(2) unfolding r by (simp add: pos_imp_zdiv_nonneg_iff)
  with assms(5) assms(2) have "level_of ?N ?F = Some ?r"
    by (simp add: level_of_def round_c_half_away Let_def)
  with l e have "update_batteries opts sys b = Inr (b1\<lparr>battery_level := ?r\<rparr>)"
    by (simp add: update_batteries_def Let_def)
  with r show ?thesis by simp
qed

subsection \<open>A pass that changes nothing\<close>

lemma main_branch_actions:
  "actions (main_branch opts notification previous b) =
     (if battery_discharging b then
        if danger opts \<noteq> 0 \<and> battery_level b \<le> danger opts then
          (if battery_state b \<noteq> STATE_DANGER \<and> dangercmd opts \<noteq> []
           then [System (dangercmd opts)] else [])
        else if critical opts \<noteq> 0 \<and> battery_level b \<le> critical opts then
          (if battery_state b \<noteq> STATE_CRITICAL
           then update_notification opts notification (battery_level b)
                  (criticalmsg opts) NOTIFY_URGENCY_CRITICAL
           else [])
        else if warning opts \<noteq> 0 \<and> battery_level b \<le> warning opts then
          (if battery_state b \<noteq> STATE_WARNING
           then update_notification opts notification (battery_level b)
                  (warningmsg opts) NOTIFY_URGENCY_NORMAL
           else [])
        else if show_charging_msg opts \<and> battery_discharging b \<noteq> previous
          then update_notification opts notification (battery_level b)
                 (dischargingmsg opts) NOTIFY_URGENCY_NORMAL
        else if battery_state b = STATE_FULL then [Notification_close]
        else []
      else if (full opts \<noteq> 0 \<and> battery_state b \<noteq> STATE_FULL)
            \<and> (battery_level b \<ge> full opts \<or> battery_full b)
        then update_notification opts notification (battery_level b)
               (fullmsg opts) NOTIFY_URGENCY_NORMAL
      else if show_charging_msg opts \<and> battery_discharging b \<noteq> previous
        then update_notification opts notification (battery_level b)
               (chargingmsg opts) NOTIFY_URGENCY_NORMAL
      else [Notification_close])"
  by (simp add: main_branch_def Let_def)

lemma main_branch_quiet:
  assumes same: "battery_state (after (main_branch opts notification previous b))
                  = battery_state b"
    and flag: "battery_discharging b = previous"
  shows "filter fires (actions (main_branch opts notification previous b)) = []"
proof (cases "battery_discharging b")
  case True
  consider (danger) "danger opts \<noteq> 0 \<and> battery_level b \<le> danger opts"
    | (critical) "\<not> (danger opts \<noteq> 0 \<and> battery_level b \<le> danger opts)"
        "critical opts \<noteq> 0 \<and> battery_level b \<le> critical opts"
    | (warning) "\<not> (danger opts \<noteq> 0 \<and> battery_level b \<le> danger opts)"
        "\<not> (critical opts \<noteq> 0 \<and> battery_level b \<le> critical opts)"
        "warning opts \<noteq> 0 \<and> battery_level b \<le> warning opts"
    | (discharging) "\<not> (danger opts \<noteq> 0 \<and> battery_level b \<le> danger opts)"
        "\<not> (critical opts \<noteq> 0 \<and> battery_level b \<le> critical opts)"
        "\<not> (warning opts \<noteq> 0 \<and> battery_level b \<le> warning opts)"
    by blast
  then show ?thesis
  proof cases
    case danger
    with True same have "battery_state b = STATE_DANGER"
      by (auto simp: main_branch_state)
    with True danger show ?thesis by (auto simp: main_branch_actions)
  next
    case critical
    with True same have "battery_state b = STATE_CRITICAL"
      by (auto simp: main_branch_state)
    with True critical show ?thesis by (auto simp: main_branch_actions)
  next
    case warning
    with True same have "battery_state b = STATE_WARNING"
      by (auto simp: main_branch_state)
    with True warning show ?thesis by (auto simp: main_branch_actions)
  next
    case discharging
    with True same have "battery_state b = STATE_DISCHARGING"
      by (auto simp: main_branch_state)
    with True discharging flag show ?thesis by (auto simp: main_branch_actions)
  qed
next
  case False
  with same have "battery_state b = STATE_AC
      \<and> \<not> ((full opts \<noteq> 0 \<and> battery_state b \<noteq> STATE_FULL)
            \<and> (battery_level b \<ge> full opts \<or> battery_full b))"
    by (auto simp: main_branch_state split: if_splits)
  with False flag show ?thesis by (auto simp: main_branch_actions)
qed

lemma main_loop_body_quiet:
  assumes "main_loop_body opts notification sys b = Inr c" and "unchanged b c"
  shows "filter fires (actions c) = []"
proof -
  from assms(1) obtain b' where u: "update_batteries opts sys b = Inr b'"
    and c: "c = main_branch opts notification (battery_discharging b) b'"
    by (auto simp: main_loop_body_def Let_def split: sum.splits)
  have "battery_discharging b' = battery_discharging b"
    using assms(2) by (simp add: unchanged_def c main_branch_discharging)
  moreover have "battery_state (after (main_branch opts notification (battery_discharging b) b'))
      = battery_state b'"
    using assms(2) update_batteries_state [OF u] by (simp add: unchanged_def c)
  ultimately show ?thesis
    unfolding c by (intro main_branch_quiet) auto
qed

subsection \<open>Options that set the fixed flag\<close>

lemma parse_arg_fixed:
  assumes "parse_arg strtoul arg opts = Inr opts'"
    and "fixed opts \<or> fst arg = CHR ''f'' \<or> fst arg = CHR ''p''"
  shows "fixed opts'"
  using assms unfolding parse_arg_def Let_def
  by (auto split: if_splits)

lemma parse_args_fixed:
  assumes "parse_args strtoul args opts = Inr opts'"
    and "fixed opts \<or> (\<exists>arg \<in> set args. fst arg = CHR ''f'' \<or> fst arg = CHR ''p'')"
  shows "fixed opts'"
  using assms
proof (induction args arbitrary: opts)
  case Nil
  then show ?case by simp
next
  case (Cons arg args)
  from Cons.prems(1) obtain opts1 where 1: "parse_arg strtoul arg opts = Inr opts1"
    and 2: "parse_args strtoul args opts1 = Inr opts'"
    by (auto split: sum.splits)
  from Cons.prems(2) parse_arg_fixed [OF 1]
  have "fixed opts1 \<or> (\<exists>arg \<in> set args. fst arg = CHR ''f'' \<or> fst arg = CHR ''p'')"
    by auto
  from Cons.IH [OF 2 this] show ?case .
qed

section \<open>The classifier\<close>

text \<open>
  C1. While discharging, with the three thresholds nonzero and
  \<open>danger < critical < warning\<close>, the state after the pass is the first of
  DANGER, CRITICAL, WARNING whose threshold the level does not exceed, and
  DISCHARGING when it exceeds all three, whatever the state before.
\<close>

theorem discharging_priority:
  assumes "battery_discharging b"
    and "danger opts \<noteq> 0" and "critical opts \<noteq> 0" and "warning opts \<noteq> 0"
    and "danger opts < critical opts" and "critical opts < warning opts"
  shows "battery_state (after (main_branch opts notification previous b)) =
           (if battery_level b \<le> danger opts then STATE_DANGER
            else if battery_level b \<le> critical opts then STATE_CRITICAL
            else if battery_level b \<le> warning opts then STATE_WARNING
            else STATE_DISCHARGING)"
  using assms by (simp add: main_branch_state)

theorem discharging_priority_witness:
  "map (\<lambda>l. battery_state (after (main_branch example_options True True (discharging_at l))))
     [0, 2, 3, 5, 6, 15, 16, 100]
   = [STATE_DANGER, STATE_DANGER, STATE_CRITICAL, STATE_CRITICAL, STATE_WARNING,
      STATE_WARNING, STATE_DISCHARGING, STATE_DISCHARGING]"
  using discharging_priority [of "discharging_at 0" example_options True True]
    discharging_priority [of "discharging_at 2" example_options True True]
    discharging_priority [of "discharging_at 3" example_options True True]
    discharging_priority [of "discharging_at 5" example_options True True]
    discharging_priority [of "discharging_at 6" example_options True True]
    discharging_priority [of "discharging_at 15" example_options True True]
    discharging_priority [of "discharging_at 16" example_options True True]
    discharging_priority [of "discharging_at 100" example_options True True]
  by (simp add: example_options_def initial_options_def discharging_at_def initial_battery_def)

text \<open>
  C2. A threshold set to 0 never triggers its branch: with \<^verbatim>\<open>danger\<close> 0 no pass ends
  in DANGER or runs the danger command, with \<^verbatim>\<open>critical\<close> 0 none ends in CRITICAL, with
  \<^verbatim>\<open>warning\<close> 0 none in WARNING, with \<^verbatim>\<open>full\<close> 0 none in FULL, for every battery
  reading and every state before.
\<close>

theorem zero_threshold_never_triggers:
  "(danger opts = 0 \<longrightarrow>
      battery_state (after (main_branch opts notification previous b)) \<noteq> STATE_DANGER
      \<and> System (dangercmd opts) \<notin> set (actions (main_branch opts notification previous b)))
   \<and> (critical opts = 0 \<longrightarrow>
      battery_state (after (main_branch opts notification previous b)) \<noteq> STATE_CRITICAL)
   \<and> (warning opts = 0 \<longrightarrow>
      battery_state (after (main_branch opts notification previous b)) \<noteq> STATE_WARNING)
   \<and> (full opts = 0 \<longrightarrow>
      battery_state (after (main_branch opts notification previous b)) \<noteq> STATE_FULL)"
  by (simp add: main_branch_def Let_def update_notification_def)

text \<open>The example of the claim: \<^verbatim>\<open>danger\<close> 0, \<^verbatim>\<open>critical\<close> 5, level 1, discharging.\<close>

theorem zero_threshold_never_triggers_witness:
  "danger (example_options\<lparr>danger := 0\<rparr>) = 0
   \<and> critical (example_options\<lparr>danger := 0\<rparr>) = 5
   \<and> battery_state (after (main_branch (example_options\<lparr>danger := 0\<rparr>) True True
        (discharging_at 1))) = STATE_CRITICAL
   \<and> battery_state (after (main_branch (example_options\<lparr>danger := 0\<rparr>) True True
        (discharging_at 1))) \<noteq> STATE_DANGER"
  using zero_threshold_never_triggers
    [of "example_options\<lparr>danger := 0\<rparr>" True True "discharging_at 1"]
  by (simp add: example_options_def initial_options_def discharging_at_def initial_battery_def
      main_branch_state)

section \<open>The scheduler\<close>




text \<open>
  C8. The delay is not floored: with \<^verbatim>\<open>critical\<close> and \<^verbatim>\<open>danger\<close> set to 0, the multiplier
  60 and \<^verbatim>\<open>fixed\<close> not set (the options \<^verbatim>\<open>-c 0 -d 0\<close>, which pass validation), a
  battery discharging at level 0 is in WARNING with the level
  not above \<^verbatim>\<open>critical\<close>; \<^verbatim>\<open>duration\<close> is \<open>(0 - 0) * 60 = 0\<close> and the loop calls
  \<^verbatim>\<open>sigtimedwait\<close> with a timeout of 0 seconds, although \<^verbatim>\<open>-m\<close> is the "minimum number of
  SECONDS to wait between battery checks".
\<close>

theorem zero_delay_in_warning:
  "main_options (\<lambda>s. 0) None [(CHR ''c'', ''0''), (CHR ''d'', ''0'')] example_options
       = Inr (example_options\<lparr>critical := 0, danger := 0\<rparr>)
   \<and> multiplier (example_options\<lparr>critical := 0, danger := 0\<rparr>) = 60
   \<and> fixed (example_options\<lparr>critical := 0, danger := 0\<rparr>) = False
   \<and> main_loop_body (example_options\<lparr>critical := 0, danger := 0\<rparr>) True
         (capacity_only ''Discharging'' 0) (discharging_at 1)
       = Inr \<lparr> after = \<lparr> battery_discharging = True, battery_full = False,
                         battery_state = STATE_WARNING, battery_level = 0,
                         energy_full = 100, energy_now = 0 \<rparr>,
               duration = 0,
               actions = [Notification_show ''Battery is low'' 0 NOTIFY_URGENCY_NORMAL] \<rparr>
   \<and> main_wait (example_options\<lparr>critical := 0, danger := 0\<rparr>) 0 = Sigtimedwait 0"
  by code_simp

text \<open>
  C10. When \<^verbatim>\<open>-f\<close> or \<^verbatim>\<open>-p\<close> stands in the configuration file or on the command line
  and the program gets past validation, \<^verbatim>\<open>fixed\<close> is set, so that in every pass the
  delay is the multiplier, whatever the state and the level, and the loop waits that
  long (or for the signal when the multiplier is 0, or leaves when \<^verbatim>\<open>run_once\<close>).
\<close>

theorem charging_options_force_fixed:
  assumes "main_options strtoul conf_argv argv opts0 = Inr opts"
    and "\<exists>arg \<in> set (case conf_argv of None \<Rightarrow> [] | Some conf \<Rightarrow> conf) \<union> set argv.
           fst arg = CHR ''f'' \<or> fst arg = CHR ''p''"
  shows "fixed opts
         \<and> int (duration (main_branch opts notification previous b)) = multiplier opts
         \<and> main_wait opts (duration (main_branch opts notification previous b)) =
             (if run_once opts then Break
              else if multiplier opts = 0 then Sigwaitinfo
              else Sigtimedwait (nat (multiplier opts)))"
proof -
  from assms(1) obtain opts1 where
    1: "(case conf_argv of None \<Rightarrow> Inr opts0 | Some conf \<Rightarrow> parse_args strtoul conf opts0)
          = Inr opts1"
    and 2: "parse_args strtoul argv opts1 = Inr opts"
    and valid: "validate_options opts = Inr ()"
    by (auto simp: main_options_def split: sum.splits)
  have "fixed opts1 \<or> (\<exists>arg \<in> set argv. fst arg = CHR ''f'' \<or> fst arg = CHR ''p'')"
  proof (cases conf_argv)
    case None
    with assms(2) show ?thesis by auto
  next
    case (Some conf)
    with 1 have p: "parse_args strtoul conf opts0 = Inr opts1" by simp
    show ?thesis
    proof (cases "\<exists>arg \<in> set conf. fst arg = CHR ''f'' \<or> fst arg = CHR ''p''")
      case True
      then have "fixed opts1" by (intro parse_args_fixed [OF p]) simp
      then show ?thesis ..
    next
      case False
      with assms(2) Some show ?thesis by auto
    qed
  qed
  from parse_args_fixed [OF 2 this] have f: "fixed opts" .
  note r = validate_options_range [OF valid]
  have "int (to_unsigned (multiplier opts)) = multiplier opts"
    using r by (intro to_unsigned_exact) auto
  with f have d: "int (duration (main_branch opts notification previous b)) = multiplier opts"
    by (simp add: main_branch_duration)
  then have "duration (main_branch opts notification previous b) = nat (multiplier opts)"
    by linarith
  with f d show ?thesis by (simp add: main_wait_def)
qed

text \<open>With \<^verbatim>\<open>-f 80\<close> alone, the battery of the example of C5 (level 10, in WARNING)
  waits 60 seconds, not 300.\<close>

theorem charging_options_force_fixed_witness:
  "main_options (\<lambda>s. 80) None [(CHR ''f'', ''80'')] example_options
     = Inr (example_options\<lparr>full := 80, fixed := True\<rparr>)
   \<and> main_options (\<lambda>s. 80) None [(CHR ''p'', [])] example_options
     = Inr (example_options\<lparr>show_charging_msg := True, fixed := True\<rparr>)
   \<and> battery_state (after (main_branch (example_options\<lparr>full := 80, fixed := True\<rparr>)
        True True (discharging_at 10))) = STATE_WARNING
   \<and> duration (main_branch (example_options\<lparr>full := 80, fixed := True\<rparr>)
        True True (discharging_at 10)) = 60"
proof -
  have f: "main_options (\<lambda>s. 80) None [(CHR ''f'', ''80'')] example_options
     = Inr (example_options\<lparr>full := 80, fixed := True\<rparr>)"
    by (simp add: main_options_def parse_arg_def validate_options_def example_options_def
        initial_options_def to_int_def)
  have p: "main_options (\<lambda>s. 80) None [(CHR ''p'', [])] example_options
     = Inr (example_options\<lparr>show_charging_msg := True, fixed := True\<rparr>)"
    by (simp add: main_options_def parse_arg_def validate_options_def example_options_def
        initial_options_def to_int_def)
  from charging_options_force_fixed [OF f, of True True "discharging_at 10"]
  have "int (duration (main_branch (example_options\<lparr>full := 80, fixed := True\<rparr>)
        True True (discharging_at 10))) = 60"
    by (simp add: example_options_def initial_options_def)
  moreover have "battery_state (after (main_branch (example_options\<lparr>full := 80, fixed := True\<rparr>)
        True True (discharging_at 10))) = STATE_WARNING"
    by (simp add: main_branch_state example_options_def initial_options_def discharging_at_def
        initial_battery_def)
  ultimately show ?thesis using f p by simp
qed

section \<open>Validation\<close>

text \<open>
  C7 (as amended). \<^verbatim>\<open>validate_options\<close> ends the program exactly when a threshold is
  outside 0..100, or the multiplier is outside 0..3600, or \<^verbatim>\<open>warning\<close> and \<^verbatim>\<open>critical\<close>
  are both nonzero with \<open>warning \<le> critical\<close>, or \<^verbatim>\<open>critical\<close> and \<^verbatim>\<open>danger\<close> are both
  nonzero with \<open>critical \<le> danger\<close>, or \<^verbatim>\<open>full\<close> is nonzero and does not exceed the
  highest nonzero of \<^verbatim>\<open>warning\<close> and \<^verbatim>\<open>critical\<close>, or \<^verbatim>\<open>danger\<close> when both are zero.
\<close>

theorem validate_options_rejects:
  "(validate_options opts \<noteq> Inr ()) = rejected opts"
  unfolding validate_options_def rejected_def out_of_range_def out_of_order_def
    highest_nonzero_def Let_def
  by (auto split: if_splits)

text \<open>The two examples of the claim: \<open>warning = critical = 10\<close> is rejected, the
  thresholds 15, 5, 2 are accepted.\<close>

theorem validate_options_rejects_witness:
  "validate_options (example_options\<lparr>warning := 10, critical := 10\<rparr>) \<noteq> Inr ()
   \<and> validate_options (example_options\<lparr>warning := 15, critical := 5, danger := 2\<rparr>) = Inr ()"
  using validate_options_rejects [of "example_options\<lparr>warning := 10, critical := 10\<rparr>"]
    validate_options_rejects
      [of "example_options\<lparr>warning := 15, critical := 5, danger := 2\<rparr>"]
  by (simp add: rejected_def out_of_range_def out_of_order_def highest_nonzero_def
      example_options_def initial_options_def)

text \<open>
  C7 as stated fails: with \<^verbatim>\<open>warning\<close> and \<^verbatim>\<open>critical\<close> 0, \<^verbatim>\<open>danger\<close> 50 and \<^verbatim>\<open>full\<close>
  40, none of the stated conditions holds, and \<^verbatim>\<open>validate_options\<close> ends the program
  with "Option -f must be greater than 50".
\<close>

theorem validate_options_counterexample:
  "validate_options
     (example_options\<lparr>warning := 0, critical := 0, danger := 50, full := 40\<rparr>)
     = Inl (Full_not_greater 50)
   \<and> \<not> rejected_as_stated
         (example_options\<lparr>warning := 0, critical := 0, danger := 50, full := 40\<rparr>)"
  by (simp add: validate_options_def rejected_as_stated_def out_of_range_def out_of_order_def
      highest_nonzero_def example_options_def initial_options_def)

section \<open>Aggregation\<close>




text \<open>
  C4. With \<^verbatim>\<open>energy_full\<close> zero the program does not stop: \<^verbatim>\<open>update_batteries\<close> has no
  test before the division, and the level is left without a defined value. Two inputs:
  a readable battery whose \<^verbatim>\<open>charge_now\<close> and \<^verbatim>\<open>charge_full\<close> are 0, and, with
  \<^verbatim>\<open>battery_required\<close> off, a battery that cannot be read.
\<close>

theorem zero_capacity_not_fatal:
  "update_batteries example_options (charge_files [(''Discharging'', 0, 0)]) initial_battery
     = Inl Level_undefined
   \<and> update_batteries (example_options\<lparr>battery_required := False\<rparr>)
       \<lparr> charge_now_exists = True, energy_now_exists = False,
         readings = [\<lparr> status_read = None, now_read = None, full_read = None \<rparr>] \<rparr>
       initial_battery
     = Inl Level_undefined"
  by code_simp

text \<open>
  C9 (as amended). When no read is fatal, the sum of the full-values is positive and
  below \<open>2^31\<close>, and the sum of the now-values does not exceed it, \<^verbatim>\<open>update_batteries\<close>
  returns with a level from 0 to 100.
\<close>

theorem level_in_range:
  assumes "battery_required opts \<longrightarrow> all_readable sys"
    and "0 < energy_full_sum sys"
    and "energy_full_sum sys < 2 ^ 31"
    and "energy_now_sum sys \<le> energy_full_sum sys"
  shows "\<exists>b'. update_batteries opts sys b = Inr b'
           \<and> 0 \<le> battery_level b' \<and> battery_level b' \<le> 100"
proof -
  let ?N = "energy_now_sum sys"
  let ?F = "energy_full_sum sys"
  have n: "0 \<le> ?N"
    unfolding energy_now_sum_def by (rule totals_nonneg(1))
  have "200 * ?N + ?F < 101 * (2 * ?F)" using assms(2,4) by simp
  then have "(200 * ?N + ?F) div (2 * ?F) < 101"
    using assms(2) by (intro int_div_less) simp_all
  then have hi: "(200 * ?N + ?F) div (2 * ?F) \<le> 100" by simp
  have lo: "0 \<le> (200 * ?N + ?F) div (2 * ?F)"
    using n assms(2) by (simp add: pos_imp_zdiv_nonneg_iff)
  have "round_half_away (100 * of_int ?N / of_int ?F) < 2 ^ 31"
    using hi unfolding round_half_away_quotient [OF n assms(2)] by simp
  from update_batteries_level [OF assms(1,2,3) _ this, of b] assms(3,4) hi lo
  show ?thesis by auto
qed

theorem level_in_range_witness:
  "\<exists>b'. update_batteries example_options
              (charge_files [(''Discharging'', 50, 100), (''Charging'', 30, 100)])
              initial_battery = Inr b'
           \<and> 0 \<le> battery_level b' \<and> battery_level b' \<le> 100"
proof -
  let ?sys = "charge_files [(''Discharging'', 50, 100), (''Charging'', 30, 100)]"
  have a: "all_readable ?sys"
    by (simp add: all_readable_def charge_files_def set_attributes_def contribution_def)
  have n: "energy_now_sum ?sys = 80"
    by (simp add: energy_now_sum_def now_total_def charge_files_def set_attributes_def
        contribution_def)
  have f: "energy_full_sum ?sys = 200"
    by (simp add: energy_full_sum_def full_total_def charge_files_def set_attributes_def
        contribution_def)
  show ?thesis
    using level_in_range [of example_options ?sys initial_battery] a
    unfolding n f by simp
qed

text \<open>
  C9 as stated fails: a battery whose \<^verbatim>\<open>charge_now\<close> 150 exceeds its \<^verbatim>\<open>charge_full\<close>
  100 gives level 150.
\<close>

theorem level_in_range_counterexample:
  "update_batteries example_options (charge_files [(''Charging'', 150, 100)]) initial_battery
   = Inr \<lparr> battery_discharging = False, battery_full = False, battery_state = STATE_AC,
           battery_level = 150, energy_full = 100, energy_now = 150 \<rparr>"
  by code_simp

section \<open>Dispatch\<close>

text \<open>
  C6. In every run of the loop, a pass that leaves the state and the discharging flag as
  it found them sends nothing: no notification, no message command, no danger command.
  (It may close the notification.)
\<close>

theorem edge_triggered:
  assumes "main_loop opts notification inputs b = (cs, e)"
    and "(before, c) \<in> set (zip (befores b cs) cs)"
    and "unchanged before c"
  shows "filter fires (actions c) = []"
  using assms
proof (induction inputs arbitrary: b cs)
  case Nil
  then show ?case by simp
next
  case (Cons sys rest)
  show ?case
  proof (cases "main_loop_body opts notification sys b")
    case (Inl x)
    with Cons.prems show ?thesis by simp
  next
    case (Inr c0)
    show ?thesis
    proof (cases "main_wait opts (duration c0) = Break")
      case True
      with Inr Cons.prems have "cs = [c0]" by simp
      with Cons.prems have "before = b" "c = c0" by auto
      with Inr Cons.prems(3) show ?thesis by (auto intro: main_loop_body_quiet)
    next
      case False
      obtain cs' e' where rest: "main_loop opts notification rest (after c0) = (cs', e')"
        by (cases "main_loop opts notification rest (after c0)")
      with Inr False Cons.prems(1) have cs: "cs = c0 # cs'" and "e = e'" by auto
      from Cons.prems(2) cs
      consider "before = b" "c = c0" | "(before, c) \<in> set (zip (befores (after c0) cs') cs')"
        by auto
      then show ?thesis
      proof cases
        case 1
        with Inr Cons.prems(3) show ?thesis by (auto intro: main_loop_body_quiet)
      next
        case 2
        from Cons.IH [OF _ 2 Cons.prems(3)] rest \<open>e = e'\<close> show ?thesis by simp
      qed
    qed
  qed
qed

text \<open>
  The example of the claim, with warning 15, critical 5, danger 2, full 0: levels 20, 14,
  14 while discharging give DISCHARGING, then WARNING with the warning message, then
  WARNING again with nothing sent.
\<close>

theorem edge_triggered_witness:
  "map (\<lambda>c. (battery_state (after c), battery_level (after c), filter fires (actions c)))
     (fst (main_loop (example_options\<lparr>full := 0\<rparr>) True
        [capacity_only ''Discharging'' 20, capacity_only ''Discharging'' 14,
         capacity_only ''Discharging'' 14]
        (discharging_at 20)))
   = [(STATE_DISCHARGING, 20, []),
      (STATE_WARNING, 14, [Notification_show ''Battery is low'' 14 NOTIFY_URGENCY_NORMAL]),
      (STATE_WARNING, 14, [])]"
proof -
  let ?b1 = "\<lparr> battery_discharging = True, battery_full = False,
               battery_state = STATE_DISCHARGING, battery_level = 20,
               energy_full = 100, energy_now = 20 \<rparr>"
  let ?b2 = "\<lparr> battery_discharging = True, battery_full = False,
               battery_state = STATE_WARNING, battery_level = 14,
               energy_full = 100, energy_now = 14 \<rparr>"
  let ?c1 = "\<lparr> after = ?b1, duration = 300, actions = [] \<rparr>"
  let ?c2 = "\<lparr> after = ?b2, duration = 540,
               actions = [Notification_show ''Battery is low'' 14 NOTIFY_URGENCY_NORMAL] \<rparr>"
  let ?c3 = "\<lparr> after = ?b2, duration = 540, actions = [] \<rparr>"
  have run: "main_loop (example_options\<lparr>full := 0\<rparr>) True
        [capacity_only ''Discharging'' 20, capacity_only ''Discharging'' 14,
         capacity_only ''Discharging'' 14]
        (discharging_at 20) = ([?c1, ?c2, ?c3], None)"
    by code_simp
  have "filter fires (actions ?c3) = []"
    using edge_triggered [OF run, of ?b2 ?c3] by (simp add: unchanged_def)
  with run show ?thesis by simp
qed

end
